theory Spec2Isabelle
  imports Complex_Main
begin

section \<open>Geo-distance calculator (utils/helpers)\<close>

text \<open>
  JavaScript numbers are modelled as real numbers. \<open>Math.atan2\<close> is the two-argument
  arctangent of the language's standard library, written out by quadrant.
\<close>

definition atan2 :: "real \<Rightarrow> real \<Rightarrow> real" where
  "atan2 y x =
     (if 0 < x then arctan (y / x)
      else if x < 0 then (if 0 \<le> y then arctan (y / x) + pi else arctan (y / x) - pi)
      else if 0 < y then pi / 2
      else if y < 0 then - (pi / 2)
      else 0)"

definition toRadians :: "real \<Rightarrow> real" where
  "toRadians degrees = degrees * (pi / 180)"

definition calculateDistance :: "real \<Rightarrow> real \<Rightarrow> real \<Rightarrow> real \<Rightarrow> real" where
  "calculateDistance lat1 lon1 lat2 lon2 =
     (let R = 6371;
          dLat = toRadians (lat2 - lat1);
          dLon = toRadians (lon2 - lon1);
          a = sin (dLat / 2) * sin (dLat / 2) +
              cos (toRadians lat1) * cos (toRadians lat2) *
              sin (dLon / 2) * sin (dLon / 2);
          c = 2 * atan2 (sqrt a) (sqrt (1 - a))
      in R * c)"

section \<open>Data model (models/ServiceRequest, Worker, Tracking, Review)\<close>

text \<open>
  Document ids and references are ObjectIds, compared through \<open>toString()\<close>: natural
  numbers with equality. Dates are natural numbers; every operation receives the current
  time \<open>now\<close>, the value of \<open>new Date()\<close> and \<open>Date.now()\<close> during the call. A GeoJSON
  point is its coordinate pair (longitude, latitude); the 2dsphere indexes on the location
  fields admit nothing else. Record fields carry a prefix naming their schema; schema fields
  that no operation below reads or writes are left out.
\<close>

type_synonym oid = nat
type_synonym date = nat
type_synonym point = "real \<times> real"

datatype role = Customer | WorkerRole | ShopRole | Admin

record user =
  u_id :: oid
  u_role :: role

datatype sr_status = Pending | Accepted | Rejected | InProgress | Completed | Cancelled

record service_request =
  sr_id :: oid
  sr_customer :: oid
  sr_worker :: "oid option"
  sr_serviceType :: string
  sr_coordinates :: point
  sr_estimatedCost :: real
  sr_status :: sr_status
  sr_acceptedAt :: "date option"
  sr_startedAt :: "date option"
  sr_completedAt :: "date option"
  sr_cancelledAt :: "date option"
  sr_cancellationReason :: "string option"
  sr_customerRating :: "real option"
  sr_customerReview :: "string option"
  sr_workerRating :: "real option"
  sr_workerReview :: "string option"
  sr_createdAt :: date
  sr_updatedAt :: date

record worker =
  wk_id :: oid
  wk_user :: oid
  wk_profession :: string
  wk_coordinates :: point
  wk_address :: string
  wk_serviceArea :: real
  wk_isVerified :: bool
  wk_isAvailable :: bool
  wk_rating_average :: real
  wk_rating_count :: nat
  wk_completedJobs :: nat
  wk_updatedAt :: date

datatype tk_status = EnRoute | Arrived | Working | TkCompleted

record location_entry =
  le_coordinates :: point
  le_address :: string
  le_timestamp :: date

record tracking =
  tk_id :: oid
  tk_serviceRequest :: oid
  tk_worker :: oid
  tk_customer :: oid
  tk_currentLocation :: location_entry
  tk_destination :: point
  tk_status :: tk_status
  tk_isLive :: bool
  tk_locationHistory :: "location_entry list"
  tk_startedAt :: date
  tk_endedAt :: "date option"
  tk_createdAt :: date
  tk_updatedAt :: date

record review =
  rv_id :: oid
  rv_serviceRequest :: oid
  rv_reviewer :: oid
  rv_reviewee :: oid
  rv_worker :: "oid option"
  rv_rating :: real
  rv_review :: string
  rv_reviewType :: string
  rv_isActive :: bool

text \<open>
  The document store: one list of documents per collection, in insertion order, and the
  next fresh ObjectId.
\<close>

record store =
  requests :: "service_request list"
  workers :: "worker list"
  trackings :: "tracking list"
  reviews :: "review list"
  next_id :: oid

text \<open>
  A route answers with a failure envelope (404, 403 or 400), hands a thrown exception to
  \<open>next(error)\<close>, or answers with a success envelope and its message.
\<close>

datatype error = NotFound | Forbidden | BadRequest | Unexpected

datatype response = Err error | Ok string

section \<open>Store access\<close>

definition findById_sr :: "store \<Rightarrow> oid \<Rightarrow> service_request option" where
  "findById_sr db i = find (\<lambda>d. sr_id d = i) (requests db)"

definition findById_wk :: "store \<Rightarrow> oid \<Rightarrow> worker option" where
  "findById_wk db i = find (\<lambda>d. wk_id d = i) (workers db)"

definition findById_tk :: "store \<Rightarrow> oid \<Rightarrow> tracking option" where
  "findById_tk db i = find (\<lambda>d. tk_id d = i) (trackings db)"

definition findOne_worker_by_user :: "store \<Rightarrow> oid \<Rightarrow> worker option" where
  "findOne_worker_by_user db uid = find (\<lambda>d. wk_user d = uid) (workers db)"

definition findOne_live_tracking :: "store \<Rightarrow> oid \<Rightarrow> tracking option" where
  "findOne_live_tracking db rid =
     find (\<lambda>d. tk_serviceRequest d = rid \<and> tk_isLive d) (trackings db)"

text \<open>
  Writes address one document: the first of the collection that matches. \<open>doc.save()\<close>
  runs the schema's pre-save hook, which sets \<open>updatedAt\<close>, and writes the document
  back under its id.
\<close>

fun update_first :: "('a \<Rightarrow> bool) \<Rightarrow> ('a \<Rightarrow> 'a) \<Rightarrow> 'a list \<Rightarrow> 'a list" where
  "update_first P f [] = []"
| "update_first P f (x # xs) = (if P x then f x # xs else x # update_first P f xs)"

definition save_sr :: "date \<Rightarrow> service_request \<Rightarrow> store \<Rightarrow> store" where
  "save_sr now d db =
     db\<lparr>requests := update_first (\<lambda>x. sr_id x = sr_id d) (\<lambda>_. d\<lparr>sr_updatedAt := now\<rparr>)
                        (requests db)\<rparr>"

definition save_wk :: "date \<Rightarrow> worker \<Rightarrow> store \<Rightarrow> store" where
  "save_wk now d db =
     db\<lparr>workers := update_first (\<lambda>x. wk_id x = wk_id d) (\<lambda>_. d\<lparr>wk_updatedAt := now\<rparr>)
                       (workers db)\<rparr>"

definition save_tk :: "date \<Rightarrow> tracking \<Rightarrow> store \<Rightarrow> store" where
  "save_tk now d db =
     db\<lparr>trackings := update_first (\<lambda>x. tk_id x = tk_id d) (\<lambda>_. d\<lparr>tk_updatedAt := now\<rparr>)
                         (trackings db)\<rparr>"

text \<open>
  \<open>Model.create\<close> stores a new document under a fresh id. \<open>findOneAndUpdate\<close> changes
  the first document that matches and \<open>findByIdAndUpdate\<close> the document of that id;
  neither runs the pre-save hook.
\<close>

definition create_tk :: "tracking \<Rightarrow> store \<Rightarrow> store" where
  "create_tk d db = db\<lparr>trackings := trackings db @ [d], next_id := Suc (next_id db)\<rparr>"

definition create_rv :: "review \<Rightarrow> store \<Rightarrow> store" where
  "create_rv d db = db\<lparr>reviews := reviews db @ [d], next_id := Suc (next_id db)\<rparr>"

definition findByIdAndUpdate_sr ::
  "oid \<Rightarrow> (service_request \<Rightarrow> service_request) \<Rightarrow> store \<Rightarrow> store" where
  "findByIdAndUpdate_sr i f db = db\<lparr>requests := update_first (\<lambda>d. sr_id d = i) f (requests db)\<rparr>"

definition findByIdAndUpdate_wk :: "oid \<Rightarrow> (worker \<Rightarrow> worker) \<Rightarrow> store \<Rightarrow> store" where
  "findByIdAndUpdate_wk i f db = db\<lparr>workers := update_first (\<lambda>d. wk_id d = i) f (workers db)\<rparr>"

definition findOneAndUpdate_tk ::
  "(tracking \<Rightarrow> bool) \<Rightarrow> (tracking \<Rightarrow> tracking) \<Rightarrow> store \<Rightarrow> store" where
  "findOneAndUpdate_tk P f db = db\<lparr>trackings := update_first P f (trackings db)\<rparr>"

section \<open>Request values\<close>

text \<open>
  A field of the request body may be absent (\<open>None\<close>). \<open>a || d\<close> takes \<open>d\<close> when \<open>a\<close>
  is falsy: absent, the empty string, or the number zero.
\<close>

definition str_or :: "string option \<Rightarrow> string \<Rightarrow> string" where
  "str_or a d = (case a of None \<Rightarrow> d | Some t \<Rightarrow> if t = [] then d else t)"

definition point_or :: "point option \<Rightarrow> point \<Rightarrow> point" where
  "point_or a d = (case a of None \<Rightarrow> d | Some c \<Rightarrow> c)"

definition num_truthy :: "real option \<Rightarrow> bool" where
  "num_truthy a = (case a of None \<Rightarrow> False | Some x \<Rightarrow> x \<noteq> 0)"

text \<open>
  Modelled from the spec: the middleware \<open>authorize\<close> of middleware/auth is not among the
  sources. The identity collaborator supplies the caller's id and role, and a route
  declared with \<open>authorize(r)\<close> answers 403 to a caller whose role is not \<open>r\<close>.
\<close>

definition authorize :: "role list \<Rightarrow> user \<Rightarrow> bool" where
  "authorize roles caller = (u_role caller \<in> set roles)"

section \<open>Service-request routes (routes/service)\<close>

definition accept :: "date \<Rightarrow> user \<Rightarrow> oid \<Rightarrow> store \<Rightarrow> response \<times> store" where
  "accept now caller rid db =
     (if \<not> authorize [WorkerRole] caller then (Err Forbidden, db)
      else case findById_sr db rid of
        None \<Rightarrow> (Err NotFound, db)
      | Some serviceRequest \<Rightarrow>
          if sr_status serviceRequest \<noteq> Pending then (Err BadRequest, db)
          else case findOne_worker_by_user db (u_id caller) of
            None \<Rightarrow> (Err NotFound, db)
          | Some worker \<Rightarrow>
              let db1 = save_sr now
                    (serviceRequest\<lparr>sr_worker := Some (wk_id worker),
                                    sr_status := Accepted,
                                    sr_acceptedAt := Some now\<rparr>) db;
                  db2 = save_wk now
                    (worker\<lparr>wk_completedJobs := wk_completedJobs worker + 1\<rparr>) db1
              in (Ok ''Service request accepted'', db2))"

definition reject ::
  "date \<Rightarrow> user \<Rightarrow> oid \<Rightarrow> string option \<Rightarrow> store \<Rightarrow> response \<times> store" where
  "reject now caller rid cancellationReason db =
     (case findById_sr db rid of
        None \<Rightarrow> (Err NotFound, db)
      | Some serviceRequest \<Rightarrow>
          let isWorker = (sr_worker serviceRequest = Some (u_id caller));
              isCustomer = (sr_customer serviceRequest = u_id caller)
          in if \<not> isWorker \<and> \<not> isCustomer \<and> u_role caller \<noteq> Admin then (Err Forbidden, db)
             else
               let sr1 =
                     (if isWorker then
                        serviceRequest\<lparr>sr_status := Rejected,
                          sr_cancellationReason :=
                            Some (str_or cancellationReason ''Rejected by worker'')\<rparr>
                      else if isCustomer then
                        serviceRequest\<lparr>sr_status := Cancelled,
                          sr_cancellationReason :=
                            Some (str_or cancellationReason ''Cancelled by customer'')\<rparr>
                      else serviceRequest);
                   sr2 = sr1\<lparr>sr_cancelledAt := Some now\<rparr>
               in (Ok (if isWorker then ''Service request rejected''
                       else ''Service request cancelled''),
                   save_sr now sr2 db))"

text \<open>
  \<open>serviceRequest.worker.toString()\<close> throws on a request without a worker; the route's
  \<open>catch\<close> hands the exception on.
\<close>

definition start :: "date \<Rightarrow> user \<Rightarrow> oid \<Rightarrow> store \<Rightarrow> response \<times> store" where
  "start now caller rid db =
     (if \<not> authorize [WorkerRole] caller then (Err Forbidden, db)
      else case findById_sr db rid of
        None \<Rightarrow> (Err NotFound, db)
      | Some serviceRequest \<Rightarrow>
          (case findOne_worker_by_user db (u_id caller) of
             None \<Rightarrow> (Err Forbidden, db)
           | Some worker \<Rightarrow>
               (case sr_worker serviceRequest of
                  None \<Rightarrow> (Err Unexpected, db)
                | Some wid \<Rightarrow>
                    if wid \<noteq> wk_id worker then (Err Forbidden, db)
                    else if sr_status serviceRequest \<noteq> Accepted then (Err BadRequest, db)
                    else
                      let db1 = save_sr now
                            (serviceRequest\<lparr>sr_status := InProgress,
                                            sr_startedAt := Some now\<rparr>) db;
                          tracking =
                            \<lparr>tk_id = next_id db1,
                             tk_serviceRequest = sr_id serviceRequest,
                             tk_worker = wk_id worker,
                             tk_customer = sr_customer serviceRequest,
                             tk_currentLocation =
                               \<lparr>le_coordinates = wk_coordinates worker,
                                le_address = wk_address worker,
                                le_timestamp = now\<rparr>,
                             tk_destination = sr_coordinates serviceRequest,
                             tk_status = EnRoute,
                             tk_isLive = True,
                             tk_locationHistory = [],
                             tk_startedAt = now,
                             tk_endedAt = None,
                             tk_createdAt = now,
                             tk_updatedAt = now\<rparr>
                      in (Ok ''Service started'', create_tk tracking db1))))"

definition complete_service ::
  "date \<Rightarrow> user \<Rightarrow> oid \<Rightarrow> real option \<Rightarrow> store \<Rightarrow> response \<times> store" where
  "complete_service now caller rid actualCost db =
     (if \<not> authorize [WorkerRole] caller then (Err Forbidden, db)
      else case findById_sr db rid of
        None \<Rightarrow> (Err NotFound, db)
      | Some serviceRequest \<Rightarrow>
          (case findOne_worker_by_user db (u_id caller) of
             None \<Rightarrow> (Err Forbidden, db)
           | Some worker \<Rightarrow>
               (case sr_worker serviceRequest of
                  None \<Rightarrow> (Err Unexpected, db)
                | Some wid \<Rightarrow>
                    if wid \<noteq> wk_id worker then (Err Forbidden, db)
                    else if sr_status serviceRequest \<noteq> InProgress then (Err BadRequest, db)
                    else
                      let sr1 = serviceRequest\<lparr>sr_status := Completed,
                                                sr_completedAt := Some now\<rparr>;
                          sr2 = (case actualCost of
                                   None \<Rightarrow> sr1
                                 | Some cost \<Rightarrow>
                                     if cost \<noteq> 0 then sr1\<lparr>sr_estimatedCost := cost\<rparr>
                                     else sr1);
                          db1 = save_sr now sr2 db;
                          db2 = findOneAndUpdate_tk
                                  (\<lambda>t. tk_serviceRequest t = sr_id serviceRequest)
                                  (\<lambda>t. t\<lparr>tk_isLive := False, tk_status := TkCompleted,
                                          tk_endedAt := Some now\<rparr>) db1
                      in (Ok ''Service completed successfully'', db2))))"

text \<open>
  \<open>Review.updateRating(id, 'worker')\<close> averages the ratings of the worker's active
  reviews and writes the average, rounded to one decimal by \<open>Math.round\<close>, and the
  count into the worker document.
\<close>

definition updateRating_worker :: "oid \<Rightarrow> store \<Rightarrow> store" where
  "updateRating_worker targetId db =
     (let result = filter (\<lambda>r. rv_worker r = Some targetId \<and> rv_isActive r) (reviews db)
      in if result = [] then db
         else
           let averageRating = sum_list (map rv_rating result) / real (length result)
           in findByIdAndUpdate_wk targetId
                (\<lambda>w. w\<lparr>wk_rating_average :=
                          real_of_int \<lfloor>averageRating * 10 + 1 / 2\<rfloor> / 10,
                        wk_rating_count := length result\<rparr>) db)"

text \<open>
  In \<open>rate\<close>, \<open>worker.user\<close> throws when the request's worker reference resolves to no
  worker, and \<open>Review.create\<close> throws when the rating is absent or outside 1..5 (the
  Review schema's validators); both happen before the first write.
\<close>

definition rate ::
  "date \<Rightarrow> user \<Rightarrow> oid \<Rightarrow> real option \<Rightarrow> string option \<Rightarrow> string option \<Rightarrow> store
     \<Rightarrow> response \<times> store" where
  "rate now caller rid rating review reviewType db =
     (case findById_sr db rid of
        None \<Rightarrow> (Err NotFound, db)
      | Some serviceRequest \<Rightarrow>
          if sr_status serviceRequest \<noteq> Completed then (Err BadRequest, db)
          else if num_truthy (sr_customerRating serviceRequest) then (Err BadRequest, db)
          else
            let isCustomer = (sr_customer serviceRequest = u_id caller)
            in if isCustomer \<and> reviewType = Some ''customer_to_worker'' then
                 (case (case sr_worker serviceRequest of
                          None \<Rightarrow> None
                        | Some wid \<Rightarrow> findById_wk db wid) of
                    None \<Rightarrow> (Err Unexpected, db)
                  | Some worker \<Rightarrow>
                      (case rating of
                         None \<Rightarrow> (Err Unexpected, db)
                       | Some r \<Rightarrow>
                           if \<not> (1 \<le> r \<and> r \<le> 5) then (Err Unexpected, db)
                           else
                             let db1 = create_rv
                                   \<lparr>rv_id = next_id db,
                                    rv_serviceRequest = sr_id serviceRequest,
                                    rv_reviewer = u_id caller,
                                    rv_reviewee = wk_user worker,
                                    rv_worker = Some (wk_id worker),
                                    rv_rating = r,
                                    rv_review = str_or review [],
                                    rv_reviewType = ''customer_to_worker'',
                                    rv_isActive = True\<rparr> db;
                                 db2 = updateRating_worker (wk_id worker) db1;
                                 db3 = save_sr now
                                   (serviceRequest\<lparr>sr_customerRating := Some r,
                                      sr_customerReview := Some (str_or review [])\<rparr>) db2
                             in (Ok ''Rating submitted successfully'', db3)))
               else (Ok ''Rating submitted successfully'', save_sr now serviceRequest db))"

section \<open>Proximity listings\<close>

text \<open>
  The listings return the matching requests; their order (newest first) is not modelled.
  The query values \<open>latitude\<close>, \<open>longitude\<close> and \<open>radius\<close> are the parsed numbers, \<open>None\<close>
  when the parameter is missing; \<open>radius\<close> defaults to 10.

  \<open>nearby_requests\<close> hands the distance test to the store: \<open>$near\<close> with
  \<open>$maxDistance\<close> keeps the documents whose distance from the query point, in metres on
  the store's sphere, is at most \<open>$maxDistance\<close>. That distance function is the parameter
  \<open>geoDist\<close>; \<open>haversine_metres\<close> is the instance that measures with \<open>calculateDistance\<close>.
\<close>

definition haversine_metres :: "point \<Rightarrow> point \<Rightarrow> real" where
  "haversine_metres p q = 1000 * calculateDistance (snd p) (fst p) (snd q) (fst q)"

definition nearby_requests ::
  "(point \<Rightarrow> point \<Rightarrow> real) \<Rightarrow> user \<Rightarrow> real option \<Rightarrow> real option \<Rightarrow> real option \<Rightarrow> store
     \<Rightarrow> error + service_request list" where
  "nearby_requests geoDist caller latitude longitude radius db =
     (if \<not> authorize [WorkerRole] caller then Inl Forbidden
      else case latitude of
        None \<Rightarrow> Inl BadRequest
      | Some lat \<Rightarrow>
          (case longitude of
             None \<Rightarrow> Inl BadRequest
           | Some lon \<Rightarrow>
               (case findOne_worker_by_user db (u_id caller) of
                  None \<Rightarrow> Inl NotFound
                | Some worker \<Rightarrow>
                    Inr (filter
                      (\<lambda>r. sr_serviceType r = wk_profession worker \<and>
                           sr_status r = Pending \<and>
                           geoDist (lon, lat) (sr_coordinates r)
                             \<le> (case radius of None \<Rightarrow> 10 | Some x \<Rightarrow> x) * 1000)
                      (requests db)))))"

definition available_requests :: "user \<Rightarrow> store \<Rightarrow> error + service_request list" where
  "available_requests caller db =
     (if \<not> authorize [WorkerRole] caller then Inl Forbidden
      else case findOne_worker_by_user db (u_id caller) of
        None \<Rightarrow> Inl NotFound
      | Some worker \<Rightarrow>
          let found =
                filter (\<lambda>r. sr_serviceType r = wk_profession worker \<and> sr_status r = Pending)
                  (requests db)
          in Inr (filter
               (\<lambda>req. if fst (sr_coordinates req) = 0 \<and> snd (sr_coordinates req) = 0
                      then True
                      else calculateDistance
                             (snd (wk_coordinates worker)) (fst (wk_coordinates worker))
                             (snd (sr_coordinates req)) (fst (sr_coordinates req))
                           \<le> wk_serviceArea worker)
               found))"




section \<open>Tracking routes (routes/tracking)\<close>

definition create_tracking ::
  "date \<Rightarrow> user \<Rightarrow> oid \<Rightarrow> point option \<Rightarrow> string option \<Rightarrow> store \<Rightarrow> response \<times> store" where
  "create_tracking now caller serviceRequestId coordinates address db =
     (if \<not> authorize [WorkerRole] caller then (Err Forbidden, db)
      else case findById_sr db serviceRequestId of
        None \<Rightarrow> (Err NotFound, db)
      | Some serviceRequest \<Rightarrow>
          (case findOne_worker_by_user db (u_id caller) of
             None \<Rightarrow> (Err NotFound, db)
           | Some worker \<Rightarrow>
               (case findOne_live_tracking db serviceRequestId of
                  Some existingTracking \<Rightarrow> (Err BadRequest, db)
                | None \<Rightarrow>
                    let tracking =
                          \<lparr>tk_id = next_id db,
                           tk_serviceRequest = serviceRequestId,
                           tk_worker = wk_id worker,
                           tk_customer = sr_customer serviceRequest,
                           tk_currentLocation =
                             \<lparr>le_coordinates = point_or coordinates (0, 0),
                              le_address = str_or address [],
                              le_timestamp = now\<rparr>,
                           tk_destination = sr_coordinates serviceRequest,
                           tk_status = EnRoute,
                           tk_isLive = True,
                           tk_locationHistory =
                             [\<lparr>le_coordinates = point_or coordinates (0, 0),
                               le_address = str_or address [],
                               le_timestamp = now\<rparr>],
                           tk_startedAt = now,
                           tk_endedAt = None,
                           tk_createdAt = now,
                           tk_updatedAt = now\<rparr>
                    in (Ok ''Tracking started'', create_tk tracking db))))"

definition update_location ::
  "date \<Rightarrow> user \<Rightarrow> oid \<Rightarrow> point option \<Rightarrow> string option \<Rightarrow> store \<Rightarrow> response \<times> store" where
  "update_location now caller tid coordinates address db =
     (if \<not> authorize [WorkerRole] caller then (Err Forbidden, db)
      else case findById_tk db tid of
        None \<Rightarrow> (Err NotFound, db)
      | Some tracking \<Rightarrow>
          (case findOne_worker_by_user db (u_id caller) of
             None \<Rightarrow> (Err Forbidden, db)
           | Some worker \<Rightarrow>
               if tk_worker tracking \<noteq> wk_id worker then (Err Forbidden, db)
               else
                 let t1 = tracking\<lparr>tk_currentLocation :=
                            \<lparr>le_coordinates =
                               point_or coordinates (le_coordinates (tk_currentLocation tracking)),
                             le_address =
                               str_or address (le_address (tk_currentLocation tracking)),
                             le_timestamp = now\<rparr>\<rparr>;
                     t2 = t1\<lparr>tk_locationHistory := tk_locationHistory t1 @
                            [\<lparr>le_coordinates =
                                point_or coordinates (le_coordinates (tk_currentLocation t1)),
                              le_address = str_or address (le_address (tk_currentLocation t1)),
                              le_timestamp = now\<rparr>]\<rparr>;
                     w1 = worker\<lparr>wk_coordinates := point_or coordinates (wk_coordinates worker)\<rparr>;
                     w2 = (case address of
                             None \<Rightarrow> w1
                           | Some a \<Rightarrow> if a \<noteq> [] then w1\<lparr>wk_address := a\<rparr> else w1);
                     db1 = save_wk now w2 db;
                     db2 = save_tk now t2 db1
                 in (Ok ''Location updated'', db2)))"

definition tk_status_of :: "string option \<Rightarrow> tk_status option" where
  "tk_status_of status =
     (if status = Some ''en_route'' then Some EnRoute
      else if status = Some ''arrived'' then Some Arrived
      else if status = Some ''working'' then Some Working
      else if status = Some ''completed'' then Some TkCompleted
      else None)"

definition update_status ::
  "date \<Rightarrow> user \<Rightarrow> oid \<Rightarrow> string option \<Rightarrow> store \<Rightarrow> response \<times> store" where
  "update_status now caller tid status db =
     (if \<not> authorize [WorkerRole] caller then (Err Forbidden, db)
      else case findById_tk db tid of
        None \<Rightarrow> (Err NotFound, db)
      | Some tracking \<Rightarrow>
          (case findOne_worker_by_user db (u_id caller) of
             None \<Rightarrow> (Err Forbidden, db)
           | Some worker \<Rightarrow>
               if tk_worker tracking \<noteq> wk_id worker then (Err Forbidden, db)
               else
                 (case tk_status_of status of
                    None \<Rightarrow> (Err BadRequest, db)
                  | Some st \<Rightarrow>
                      let t1 = tracking\<lparr>tk_status := st\<rparr>;
                          t2 = (if st = TkCompleted
                                then t1\<lparr>tk_isLive := False, tk_endedAt := Some now\<rparr> else t1);
                          db1 = save_tk now t2 db;
                          db2 = (if st = Arrived
                                 then findByIdAndUpdate_sr (tk_serviceRequest tracking)
                                        (\<lambda>r. r\<lparr>sr_status := InProgress\<rparr>) db1
                                 else db1)
                      in (Ok ''Status updated'', db2))))"

definition end_tracking :: "date \<Rightarrow> user \<Rightarrow> oid \<Rightarrow> store \<Rightarrow> response \<times> store" where
  "end_tracking now caller tid db =
     (if \<not> authorize [WorkerRole] caller then (Err Forbidden, db)
      else case findById_tk db tid of
        None \<Rightarrow> (Err NotFound, db)
      | Some tracking \<Rightarrow>
          (case findOne_worker_by_user db (u_id caller) of
             None \<Rightarrow> (Err Forbidden, db)
           | Some worker \<Rightarrow>
               if tk_worker tracking \<noteq> wk_id worker then (Err Forbidden, db)
               else
                 (Ok ''Tracking ended'',
                  save_tk now
                    (tracking\<lparr>tk_isLive := False, tk_status := TkCompleted,
                               tk_endedAt := Some now\<rparr>) db)))"

section \<open>A concrete marketplace\<close>

text \<open>
  One registered plumber (worker document 10, owned by user 1), one customer (user 2), an
  administrator (user 3), and two pending plumbing requests as the create route persists
  them: document 100 with a location, document 101 with the default location (0, 0).
\<close>

definition plumber_user :: user where
  "plumber_user = \<lparr>u_id = 1, u_role = WorkerRole\<rparr>"

definition customer_user :: user where
  "customer_user = \<lparr>u_id = 2, u_role = Customer\<rparr>"

definition admin_user :: user where
  "admin_user = \<lparr>u_id = 3, u_role = Admin\<rparr>"

definition plumber :: worker where
  "plumber =
     \<lparr>wk_id = 10, wk_user = 1, wk_profession = ''plumber'',
      wk_coordinates = (90, 0), wk_address = [], wk_serviceArea = 10,
      wk_isVerified = True, wk_isAvailable = True,
      wk_rating_average = 0, wk_rating_count = 0, wk_completedJobs = 0,
      wk_updatedAt = 0\<rparr>"

definition leak_request :: service_request where
  "leak_request =
     \<lparr>sr_id = 100, sr_customer = 2, sr_worker = None, sr_serviceType = ''plumber'',
      sr_coordinates = (- 90, 0), sr_estimatedCost = 0, sr_status = Pending,
      sr_acceptedAt = None, sr_startedAt = None, sr_completedAt = None,
      sr_cancelledAt = None, sr_cancellationReason = None,
      sr_customerRating = None, sr_customerReview = None,
      sr_workerRating = None, sr_workerReview = None,
      sr_createdAt = 0, sr_updatedAt = 0\<rparr>"

definition unlocated_request :: service_request where
  "unlocated_request = leak_request\<lparr>sr_id := 101, sr_coordinates := (0, 0)\<rparr>"

definition market :: store where
  "market =
     \<lparr>requests = [leak_request, unlocated_request], workers = [plumber], trackings = [],
      reviews = [], next_id = 102\<rparr>"

definition bystander_user :: user where
  "bystander_user = \<lparr>u_id = 7, u_role = Customer\<rparr>"

text \<open>The marketplace after request 100 was accepted, started and completed by the plumber.\<close>

definition completed_market :: store where
  "completed_market =
     snd (complete_service 3 plumber_user 100 None
       (snd (start 2 plumber_user 100 (snd (accept 1 plumber_user 100 market)))))"

definition completed_request :: service_request where
  "completed_request =
     leak_request\<lparr>sr_worker := Some 10, sr_status := Completed, sr_acceptedAt := Some 1,
       sr_startedAt := Some 2, sr_completedAt := Some 3, sr_updatedAt := 3\<rparr>"

text \<open>The marketplace holding only the request without a location, or only the located one.\<close>

definition unlocated_market :: store where
  "unlocated_market = market\<lparr>requests := [unlocated_request]\<rparr>"

definition located_market :: store where
  "located_market = market\<lparr>requests := [leak_request]\<rparr>"

text \<open>The marketplace after the plumber accepted request 100.\<close>

definition accepted_market :: store where
  "accepted_market = snd (accept 1 plumber_user 100 market)"

definition accepted_request :: service_request where
  "accepted_request =
     leak_request\<lparr>sr_worker := Some 10, sr_status := Accepted, sr_acceptedAt := Some 1,
       sr_updatedAt := 1\<rparr>"

text \<open>The marketplace whose only worker has never set a location.\<close>

definition unlocated_plumber :: worker where
  "unlocated_plumber = plumber\<lparr>wk_coordinates := (0, 0)\<rparr>"

definition unlocated_worker_market :: store where
  "unlocated_worker_market = market\<lparr>workers := [unlocated_plumber]\<rparr>"

section \<open>Properties of the geo-distance calculator\<close>

lemma toRadians_diff_swap: "toRadians (x - y) = - toRadians (y - x)"
proof -
  have "x - y = - (y - x)" by simp
  then have "(x - y) * (pi / 180) = - ((y - x) * (pi / 180))"
    by (simp only: mult_minus_left)
  then show ?thesis by (simp only: toRadians_def)
qed

lemma sin_half_swap: "sin (toRadians (x - y) / 2) = - sin (toRadians (y - x) / 2)"
  by (simp add: toRadians_diff_swap [of x y])

lemma haversine_term_swap:
  "sin (toRadians (lat2 - lat1) / 2) * sin (toRadians (lat2 - lat1) / 2) +
   cos (toRadians lat1) * cos (toRadians lat2) *
   sin (toRadians (lon2 - lon1) / 2) * sin (toRadians (lon2 - lon1) / 2) =
   sin (toRadians (lat1 - lat2) / 2) * sin (toRadians (lat1 - lat2) / 2) +
   cos (toRadians lat2) * cos (toRadians lat1) *
   sin (toRadians (lon1 - lon2) / 2) * sin (toRadians (lon1 - lon2) / 2)"
  by (simp add: sin_half_swap [of lat2 lat1] sin_half_swap [of lon2 lon1])

lemma calculateDistance_antipodal: "calculateDistance 0 90 0 (- 90) = 6371 * pi"
proof -
  have "toRadians (- 90 - 90) / 2 = - (pi / 2)"
    by (simp add: toRadians_def)
  then have s: "sin (toRadians (- 90 - 90) / 2) = - 1"
    by simp
  show ?thesis
    by (simp add: calculateDistance_def Let_def s atan2_def) (simp add: toRadians_def)
qed



lemma half_turn_bounds: "10 < 6371 * pi" "6371 * pi \<le> 30000"
  using pi_ge_two pi_less_4 by simp_all

text \<open>
  C9. The Haversine distance of a point from itself is zero, the distance is symmetric in
  its two points, and it is measured on a sphere of radius 6371 km: two antipodal points
  of the equator are half a great circle, 6371 * pi km, apart.
\<close>

theorem calculateDistance_zero_symmetric:
  "calculateDistance lat1 lon1 lat1 lon1 = 0 \<and>
   calculateDistance lat1 lon1 lat2 lon2 = calculateDistance lat2 lon2 lat1 lon1 \<and>
   calculateDistance 0 0 0 180 = 6371 * pi"
proof (intro conjI)
  show "calculateDistance lat1 lon1 lat1 lon1 = 0"
    by (simp add: calculateDistance_def toRadians_def atan2_def)
  show "calculateDistance lat1 lon1 lat2 lon2 = calculateDistance lat2 lon2 lat1 lon1"
    unfolding calculateDistance_def Let_def
    by (simp only: haversine_term_swap [of lat2 lat1 lon2 lon1])
  show "calculateDistance 0 0 0 180 = 6371 * pi"
    by (simp add: calculateDistance_def toRadians_def atan2_def)
qed

section \<open>Lemmas about the store\<close>

lemmas route_defs = accept_def reject_def start_def complete_service_def rate_def
  create_tracking_def update_location_def update_status_def end_tracking_def authorize_def
  findById_sr_def findById_wk_def findById_tk_def findOne_worker_by_user_def
  findOne_live_tracking_def save_sr_def save_wk_def save_tk_def create_tk_def create_rv_def
  findByIdAndUpdate_sr_def findByIdAndUpdate_wk_def findOneAndUpdate_tk_def
  str_or_def point_or_def num_truthy_def updateRating_worker_def tk_status_of_def

lemmas market_defs = market_def plumber_def leak_request_def unlocated_request_def
  plumber_user_def customer_user_def admin_user_def bystander_user_def completed_market_def
  completed_request_def unlocated_market_def located_market_def accepted_market_def
  accepted_request_def unlocated_plumber_def unlocated_worker_market_def

lemma find_Some_holds: "find P xs = Some x \<Longrightarrow> P x"
  by (induction xs) (auto split: if_splits)

lemma find_Some_mem: "find P xs = Some x \<Longrightarrow> x \<in> set xs"
  by (induction xs) (auto split: if_splits)

lemma find_mem_not_None: "x \<in> set xs \<Longrightarrow> P x \<Longrightarrow> find P xs \<noteq> None"
  by (induction xs) auto

lemma find_update_first_same:
  "find P xs = Some x \<Longrightarrow> P (f x) \<Longrightarrow> find P (update_first P f xs) = Some (f x)"
  by (induction xs) (auto split: if_splits)

lemma find_update_first_other:
  "(\<And>x. P x \<Longrightarrow> \<not> Q x \<and> \<not> Q (f x)) \<Longrightarrow> find Q (update_first P f xs) = find Q xs"
  by (induction xs) auto

lemma map_update_first_same:
  "find P xs = Some x \<Longrightarrow> g (f x) = g x \<Longrightarrow> map g (update_first P f xs) = map g xs"
  by (induction xs) (auto split: if_splits)

lemma findById_sr_id: "findById_sr db i = Some x \<Longrightarrow> sr_id x = i"
  by (auto simp: findById_sr_def dest: find_Some_holds)

lemma findById_sr_save_sr:
  "findById_sr db (sr_id d) = Some x \<Longrightarrow>
   findById_sr (save_sr now d db) (sr_id d) = Some (d\<lparr>sr_updatedAt := now\<rparr>)"
  using find_update_first_same
    [of "\<lambda>x. sr_id x = sr_id d" "requests db" x "\<lambda>_. d\<lparr>sr_updatedAt := now\<rparr>"]
  by (simp add: findById_sr_def save_sr_def)

lemma findById_sr_save_sr_other:
  "i \<noteq> sr_id d \<Longrightarrow> findById_sr (save_sr now d db) i = findById_sr db i"
  using find_update_first_other
    [of "\<lambda>x. sr_id x = sr_id d" "\<lambda>x. sr_id x = i" "\<lambda>_. d\<lparr>sr_updatedAt := now\<rparr>" "requests db"]
  by (simp add: findById_sr_def save_sr_def)

lemma findById_wk_save_wk:
  assumes "findOne_worker_by_user db uid = Some w" and "wk_id d = wk_id w"
  shows "findById_wk (save_wk now d db) (wk_id w) = Some (d\<lparr>wk_updatedAt := now\<rparr>)"
proof -
  from assms(1) have "w \<in> set (workers db)"
    by (simp add: findOne_worker_by_user_def find_Some_mem)
  then have "find (\<lambda>x. wk_id x = wk_id w) (workers db) \<noteq> None"
    by (rule find_mem_not_None) simp
  then obtain y where y: "find (\<lambda>x. wk_id x = wk_id w) (workers db) = Some y"
    by blast
  from find_update_first_same [OF y, of "\<lambda>_. d\<lparr>wk_updatedAt := now\<rparr>"] assms(2)
  show ?thesis by (simp add: findById_wk_def save_wk_def)
qed

lemma save_frames [simp]:
  "requests (save_wk now w db) = requests db"
  "trackings (save_wk now w db) = trackings db"
  "reviews (save_wk now w db) = reviews db"
  "workers (save_sr now r db) = workers db"
  "trackings (save_sr now r db) = trackings db"
  "reviews (save_sr now r db) = reviews db"
  "requests (save_tk now t db) = requests db"
  "workers (save_tk now t db) = workers db"
  "reviews (save_tk now t db) = reviews db"
  by (simp_all add: save_wk_def save_sr_def save_tk_def)

lemma rate_frames [simp]:
  "requests (create_rv v db) = requests db"
  "workers (create_rv v db) = workers db"
  "trackings (create_rv v db) = trackings db"
  "requests (updateRating_worker i db) = requests db"
  "findById_sr (create_rv v db) j = findById_sr db j"
  "findById_sr (updateRating_worker i db) j = findById_sr db j"
  by (simp_all add: create_rv_def updateRating_worker_def findByIdAndUpdate_wk_def
      findById_sr_def Let_def)

lemma findById_frames [simp]:
  "findById_sr (save_wk now w db) i = findById_sr db i"
  "findById_wk (save_sr now r db) i = findById_wk db i"
  "findOne_worker_by_user (save_sr now r db) u = findOne_worker_by_user db u"
  by (simp_all add: findById_sr_def findById_wk_def findOne_worker_by_user_def)

lemma findById_tk_id: "findById_tk db i = Some x \<Longrightarrow> tk_id x = i"
  by (auto simp: findById_tk_def dest: find_Some_holds)

lemma findById_tk_save_tk:
  "findById_tk db (tk_id d) = Some x \<Longrightarrow>
   findById_tk (save_tk now d db) (tk_id d) = Some (d\<lparr>tk_updatedAt := now\<rparr>)"
  using find_update_first_same
    [of "\<lambda>x. tk_id x = tk_id d" "trackings db" x "\<lambda>_. d\<lparr>tk_updatedAt := now\<rparr>"]
  by (simp add: findById_tk_def save_tk_def)

lemma findById_tk_save_wk [simp]: "findById_tk (save_wk now w db) i = findById_tk db i"
  by (simp add: findById_tk_def)

lemma findById_sr_other_frames [simp]:
  "findById_sr (create_tk t db) i = findById_sr db i"
  "findById_sr (findOneAndUpdate_tk P f db) i = findById_sr db i"
  by (simp_all add: create_tk_def findOneAndUpdate_tk_def findById_sr_def)

section \<open>The service-request lifecycle\<close>

text \<open>
  Start and complete read the status before they write: a successful start found the request
  accepted and leaves it in progress, a successful complete found it in progress and leaves
  it completed, and a failing call changes nothing.
\<close>

lemma start_follows_edge:
  assumes "fst (start now caller rid db) = Ok m"
  shows "\<exists>r. findById_sr db rid = Some r \<and> sr_status r = Accepted \<and>
    map_option sr_status (findById_sr (snd (start now caller rid db)) rid) = Some InProgress"
proof -
  from assms obtain r where r: "findById_sr db rid = Some r"
    by (auto simp: start_def Let_def split: if_splits option.splits)
  from assms r have st: "sr_status r = Accepted"
    by (auto simp: start_def Let_def split: if_splits option.splits)
  let ?r' = "r\<lparr>sr_status := InProgress, sr_startedAt := Some now\<rparr>"
  from assms r obtain t where
    res: "snd (start now caller rid db) = create_tk t (save_sr now ?r' db)"
    by (auto simp: start_def Let_def split: if_splits option.splits)
  have rid: "sr_id r = rid" using r by (rule findById_sr_id)
  have "findById_sr (save_sr now ?r' db) rid = Some (?r'\<lparr>sr_updatedAt := now\<rparr>)"
    using findById_sr_save_sr [of db ?r' r now] r rid by simp
  then show ?thesis using r st res by simp
qed

lemma complete_follows_edge:
  assumes "fst (complete_service now caller rid cost db) = Ok m"
  shows "\<exists>r. findById_sr db rid = Some r \<and> sr_status r = InProgress \<and>
    map_option sr_status (findById_sr (snd (complete_service now caller rid cost db)) rid) =
      Some Completed"
proof -
  from assms obtain r where r: "findById_sr db rid = Some r"
    by (auto simp: complete_service_def Let_def split: if_splits option.splits)
  from assms r have st: "sr_status r = InProgress"
    by (auto simp: complete_service_def Let_def split: if_splits option.splits)
  from assms r obtain r' P f where
    res: "snd (complete_service now caller rid cost db) =
            findOneAndUpdate_tk P f (save_sr now r' db)"
    and r': "sr_id r' = sr_id r" "sr_status r' = Completed"
    by (auto simp: complete_service_def Let_def split: if_splits option.splits)
  have rid: "sr_id r = rid" using r by (rule findById_sr_id)
  have "findById_sr (save_sr now r' db) rid = Some (r'\<lparr>sr_updatedAt := now\<rparr>)"
    using findById_sr_save_sr [of db r' r now] r rid r'(1) by simp
  then show ?thesis using r st res r'(2) by simp
qed

lemma guarded_routes_fail_unchanged:
  "(fst (start now caller rid db) = Err e \<longrightarrow> snd (start now caller rid db) = db) \<and>
   (fst (complete_service now caller rid cost db) = Err e \<longrightarrow>
      snd (complete_service now caller rid cost db) = db)"
  by (auto simp: start_def complete_service_def Let_def split: if_splits option.splits)


text \<open>
  C1. The lifecycle is meant to move a request only along pending \<rightarrow> accepted or cancelled,
  accepted \<rightarrow> in_progress, rejected or cancelled, in_progress \<rightarrow> completed. The reject
  route has no status check: after accept, start and complete, the customer's call moves the
  completed request to cancelled and is answered with a success envelope.
\<close>

theorem reject_moves_completed_request:
  "findById_sr completed_market 100 = Some completed_request \<and>
   sr_status completed_request = Completed \<and>
   fst (reject 4 customer_user 100 None completed_market) = Ok ''Service request cancelled'' \<and>
   map_option sr_status (findById_sr (snd (reject 4 customer_user 100 None completed_market)) 100) =
     Some Cancelled"
  by (simp add: route_defs market_defs Let_def)

text \<open>
  The tracking-status mirror writes in_progress without reading the request's status: a
  tracking session opened on a pending request and marked arrived moves the request from
  pending to in_progress.
\<close>

lemma arrived_moves_pending_request:
  "let db1 = snd (create_tracking 1 plumber_user 100 None None market);
       r = update_status 2 plumber_user 102 (Some ''arrived'') db1
   in fst r = Ok ''Status updated'' \<and>
      map_option sr_status (findById_sr db1 100) = Some Pending \<and>
      map_option sr_status (findById_sr (snd r) 100) = Some InProgress"
  by (simp add: route_defs market_defs Let_def)

text \<open>
  C3. Accept by a worker on a request that is not pending fails with the state error (400)
  and changes nothing; every failing call leaves the store as it was; a successful call
  found the request pending, and afterwards the request refers to the caller's worker
  profile, has status accepted and acceptedAt set to the time of the call, and that worker's
  completedJobs counter is one higher.
\<close>

theorem accept_pending_only:
  "(u_role caller = WorkerRole \<and> findById_sr db rid = Some sr \<and> sr_status sr \<noteq> Pending \<longrightarrow>
      accept now caller rid db = (Err BadRequest, db)) \<and>
   (fst (accept now caller rid db) = Err e \<longrightarrow> snd (accept now caller rid db) = db) \<and>
   (fst (accept now caller rid db) = Ok m \<longrightarrow>
      (\<exists>r w. findById_sr db rid = Some r \<and> sr_status r = Pending \<and>
             findOne_worker_by_user db (u_id caller) = Some w \<and>
             findById_sr (snd (accept now caller rid db)) rid =
               Some (r\<lparr>sr_worker := Some (wk_id w), sr_status := Accepted,
                       sr_acceptedAt := Some now, sr_updatedAt := now\<rparr>) \<and>
             findById_wk (snd (accept now caller rid db)) (wk_id w) =
               Some (w\<lparr>wk_completedJobs := wk_completedJobs w + 1, wk_updatedAt := now\<rparr>)))"
proof (intro conjI impI)
  assume "u_role caller = WorkerRole \<and> findById_sr db rid = Some sr \<and> sr_status sr \<noteq> Pending"
  then show "accept now caller rid db = (Err BadRequest, db)"
    by (simp add: accept_def authorize_def)
next
  assume "fst (accept now caller rid db) = Err e"
  then show "snd (accept now caller rid db) = db"
    by (auto simp: accept_def Let_def split: if_splits option.splits)
next
  assume ok: "fst (accept now caller rid db) = Ok m"
  then obtain r where r: "findById_sr db rid = Some r"
    by (auto simp: accept_def Let_def split: if_splits option.splits)
  with ok have p: "sr_status r = Pending"
    by (auto simp: accept_def Let_def split: if_splits option.splits)
  from ok r p obtain w where w: "findOne_worker_by_user db (u_id caller) = Some w"
    by (auto simp: accept_def Let_def split: if_splits option.splits)
  from ok have auth: "authorize [WorkerRole] caller"
    by (auto simp: accept_def Let_def split: if_splits option.splits)
  have rid: "sr_id r = rid" using r by (rule findById_sr_id)
  let ?r' = "r\<lparr>sr_worker := Some (wk_id w), sr_status := Accepted, sr_acceptedAt := Some now\<rparr>"
  let ?w' = "w\<lparr>wk_completedJobs := wk_completedJobs w + 1\<rparr>"
  have res: "snd (accept now caller rid db) = save_wk now ?w' (save_sr now ?r' db)"
    using r p w auth by (simp add: accept_def Let_def)
  have a: "findById_sr (save_sr now ?r' db) rid = Some (?r'\<lparr>sr_updatedAt := now\<rparr>)"
    using findById_sr_save_sr [of db ?r' r now] r rid by simp
  have b: "findById_wk (save_wk now ?w' (save_sr now ?r' db)) (wk_id w) =
             Some (?w'\<lparr>wk_updatedAt := now\<rparr>)"
    using findById_wk_save_wk [of "save_sr now ?r' db" "u_id caller" w ?w' now] w by simp
  show "\<exists>r w. findById_sr db rid = Some r \<and> sr_status r = Pending \<and>
             findOne_worker_by_user db (u_id caller) = Some w \<and>
             findById_sr (snd (accept now caller rid db)) rid =
               Some (r\<lparr>sr_worker := Some (wk_id w), sr_status := Accepted,
                       sr_acceptedAt := Some now, sr_updatedAt := now\<rparr>) \<and>
             findById_wk (snd (accept now caller rid db)) (wk_id w) =
               Some (w\<lparr>wk_completedJobs := wk_completedJobs w + 1, wk_updatedAt := now\<rparr>)"
    using r p w a b res by auto
qed

theorem accept_pending_only_witness:
  "(u_role plumber_user = WorkerRole \<and>
    findById_sr (snd (accept 1 plumber_user 100 market)) 100 =
      Some (leak_request\<lparr>sr_worker := Some 10, sr_status := Accepted,
                          sr_acceptedAt := Some 1, sr_updatedAt := 1\<rparr>) \<and>
    accept 2 plumber_user 100 (snd (accept 1 plumber_user 100 market)) =
      (Err BadRequest, snd (accept 1 plumber_user 100 market))) \<and>
   (fst (accept 1 customer_user 100 market) = Err Forbidden \<and>
    snd (accept 1 customer_user 100 market) = market) \<and>
   (fst (accept 1 plumber_user 100 market) = Ok ''Service request accepted'' \<and>
    findById_wk (snd (accept 1 plumber_user 100 market)) 10 =
      Some (plumber\<lparr>wk_completedJobs := 1, wk_updatedAt := 1\<rparr>))"
  using
    accept_pending_only [of plumber_user "snd (accept 1 plumber_user 100 market)" 100
      "leak_request\<lparr>sr_worker := Some 10, sr_status := Accepted,
                     sr_acceptedAt := Some 1, sr_updatedAt := 1\<rparr>" 2 Forbidden
      "''Service request accepted''"]
    accept_pending_only [of customer_user market 100 leak_request 1 Forbidden
      "''Service request accepted''"]
    accept_pending_only [of plumber_user market 100 leak_request 1 Forbidden
      "''Service request accepted''"]
  by (simp add: route_defs market_defs Let_def)

text \<open>
  C4. The assigned worker's call is meant to set the status to rejected. The reject route
  compares the request's worker reference, the id of a worker profile, with the caller's
  user id, where start and complete look the caller's worker profile up and compare its id.
  After the plumber accepted request 100, the request refers to his profile and start
  accepts him as the assigned worker, but his reject call is refused with Forbidden and the
  request stays accepted.
\<close>

theorem reject_refuses_assigned_worker:
  "findById_sr accepted_market 100 = Some accepted_request \<and>
   sr_status accepted_request = Accepted \<and>
   sr_worker accepted_request = Some 10 \<and>
   map_option wk_id (findOne_worker_by_user accepted_market (u_id plumber_user)) = Some 10 \<and>
   reject 2 plumber_user 100 (Some ''no time'') accepted_market = (Err Forbidden, accepted_market) \<and>
   fst (start 2 plumber_user 100 accepted_market) = Ok ''Service started''"
  by (simp add: route_defs market_defs Let_def)

text \<open>
  The other actors: the requesting customer's call sets status cancelled, cancelledAt and
  the reason; a caller who is neither the customer, nor the worker reference, nor an
  administrator is refused and nothing changes; an administrator passes the authorization
  test.
\<close>

lemma reject_customer_or_stranger:
  assumes "findById_sr db rid = Some sr"
    and "sr_worker sr \<noteq> Some (u_id caller)"
  shows
    "(sr_customer sr = u_id caller \<longrightarrow>
        fst (reject now caller rid reason db) = Ok ''Service request cancelled'' \<and>
        findById_sr (snd (reject now caller rid reason db)) rid =
          Some (sr\<lparr>sr_status := Cancelled,
                  sr_cancellationReason := Some (str_or reason ''Cancelled by customer''),
                  sr_cancelledAt := Some now, sr_updatedAt := now\<rparr>)) \<and>
     (sr_customer sr \<noteq> u_id caller \<and> u_role caller \<noteq> Admin \<longrightarrow>
        reject now caller rid reason db = (Err Forbidden, db))"
proof -
  have rid: "sr_id sr = rid" using assms(1) by (rule findById_sr_id)
  have sv: "\<And>d. sr_id d = rid \<Longrightarrow>
      findById_sr (save_sr now d db) rid = Some (d\<lparr>sr_updatedAt := now\<rparr>)"
    using findById_sr_save_sr [of db _ sr now] assms(1) by auto
  show ?thesis
    using assms rid by (auto simp: reject_def Let_def sv)
qed

lemma reject_admin_passes:
  "sr_customer leak_request \<noteq> u_id admin_user \<and>
   sr_worker leak_request \<noteq> Some (u_id admin_user) \<and>
   fst (reject 5 admin_user 100 None market) = Ok ''Service request cancelled''"
  by (simp add: route_defs market_defs Let_def)

section \<open>Tracking sessions\<close>

text \<open>
  The explicit create route refuses a request that has a live tracking record, and seeds
  the history of the record it creates with one entry; a successful location update appends
  exactly one entry.
\<close>

lemma create_tracking_refuses_second_live:
  "findOne_live_tracking db rid = Some t \<Longrightarrow>
   fst (create_tracking now caller rid c a db) \<noteq> Ok m \<and>
   snd (create_tracking now caller rid c a db) = db"
  by (auto simp: create_tracking_def Let_def split: option.splits)

lemma create_tracking_seeds_history:
  "fst (create_tracking now caller rid c a db) = Ok m \<Longrightarrow>
   \<exists>t. trackings (snd (create_tracking now caller rid c a db)) = trackings db @ [t] \<and>
       tk_isLive t \<and> tk_serviceRequest t = rid \<and> length (tk_locationHistory t) = 1"
  by (auto simp: create_tracking_def create_tk_def Let_def split: if_splits option.splits)

lemma update_location_appends_one:
  assumes "fst (update_location now caller tid c a db) = Ok m"
  shows "\<exists>t. findById_tk db tid = Some t \<and>
    map_option (\<lambda>t'. length (tk_locationHistory t'))
      (findById_tk (snd (update_location now caller tid c a db)) tid) =
    Some (Suc (length (tk_locationHistory t)))"
proof -
  from assms obtain t where t: "findById_tk db tid = Some t"
    by (auto simp: update_location_def Let_def split: if_splits option.splits)
  have tid: "tk_id t = tid" using t by (rule findById_tk_id)
  have sv: "\<And>d db'. tk_id d = tid \<Longrightarrow> findById_tk db' tid \<noteq> None \<Longrightarrow>
      findById_tk (save_tk now d db') tid = Some (d\<lparr>tk_updatedAt := now\<rparr>)"
    using findById_tk_save_tk by auto
  show ?thesis
    using assms t tid
    by (auto simp: update_location_def Let_def sv split: if_splits option.splits)
qed

text \<open>
  C2. At most one live tracking record per request is meant to exist. The start route
  creates its tracking record without looking for a live one: after the explicit
  create-tracking call on the accepted request, start succeeds and the request has two
  live tracking records.
\<close>

theorem start_creates_second_live_tracking:
  "let db1 = snd (accept 1 plumber_user 100 market);
       db2 = snd (create_tracking 2 plumber_user 100 None None db1);
       r = start 3 plumber_user 100 db2
   in fst r = Ok ''Service started'' \<and>
      map tk_id (filter (\<lambda>t. tk_serviceRequest t = 100 \<and> tk_isLive t) (trackings (snd r))) =
        [102, 103]"
  by (simp add: route_defs market_defs Let_def)

text \<open>
  C6. The location history is meant to hold one seed entry plus one entry per successful
  location update. The start route creates its tracking record with an empty history: after
  start and one successful location update the history has one entry, not two.
\<close>

theorem start_tracking_history_unseeded:
  "let db1 = snd (accept 1 plumber_user 100 market);
       db2 = snd (start 2 plumber_user 100 db1);
       r = update_location 3 plumber_user 102 (Some (91, 1)) None db2
   in map_option (\<lambda>t. length (tk_locationHistory t)) (findById_tk db2 102) = Some 0 \<and>
      fst r = Ok ''Location updated'' \<and>
      map_option (\<lambda>t. length (tk_locationHistory t)) (findById_tk (snd r) 102) = Some 1"
  by (simp add: route_defs market_defs Let_def)

section \<open>Ratings\<close>

lemma rate_keeps_workerRating:
  "map sr_workerRating (requests (snd (rate now caller rid rating review reviewType db))) =
   map sr_workerRating (requests db)"
proof (cases "findById_sr db rid")
  case None
  then show ?thesis by (simp add: rate_def)
next
  case (Some sr)
  then have f: "find (\<lambda>x. sr_id x = rid) (requests db) = Some sr"
    by (simp add: findById_sr_def)
  have rid: "sr_id sr = rid" using Some by (rule findById_sr_id)
  have sv: "\<And>d db'. sr_id d = rid \<Longrightarrow> sr_workerRating d = sr_workerRating sr \<Longrightarrow>
      requests db' = requests db \<Longrightarrow>
      map sr_workerRating (requests (save_sr now d db')) = map sr_workerRating (requests db)"
    using map_update_first_same [OF f, of sr_workerRating]
    by (simp add: save_sr_def)
  show ?thesis
    using Some rid
    by (auto simp: rate_def Let_def sv split: option.splits)
qed

lemma completed_market_request: "findById_sr completed_market 100 = Some completed_request"
  by (simp add: route_defs market_defs Let_def)

lemma completed_market_worker:
  "findById_wk completed_market 10 = Some (plumber\<lparr>wk_completedJobs := 1, wk_updatedAt := 1\<rparr>)"
  by (simp add: route_defs market_defs Let_def)

text \<open>
  C5 (as the routes implement it). Only the customer-to-worker direction is recorded. On a
  completed request without a customer rating whose assigned worker exists, the customer's
  customer_to_worker rating between 1 and 5 succeeds and sets customerRating; after it every
  further Rate call on that request, whoever calls and in whichever direction, fails with
  the state error and leaves the store unchanged; and no Rate call sets workerRating on any
  request.
\<close>

theorem rate_customer_write_once:
  assumes "findById_sr db rid = Some sr"
    and "sr_status sr = Completed"
    and "sr_customerRating sr = None"
    and "sr_customer sr = u_id caller"
    and "sr_worker sr = Some wid"
    and "findById_wk db wid = Some w"
    and "1 \<le> r" and "r \<le> 5"
  shows
    "fst (rate now caller rid (Some r) review (Some ''customer_to_worker'') db) =
       Ok ''Rating submitted successfully'' \<and>
     map_option sr_customerRating
       (findById_sr (snd (rate now caller rid (Some r) review (Some ''customer_to_worker'') db))
          rid) = Some (Some r) \<and>
     rate now2 caller2 rid rating2 review2 reviewType2
       (snd (rate now caller rid (Some r) review (Some ''customer_to_worker'') db)) =
       (Err BadRequest, snd (rate now caller rid (Some r) review (Some ''customer_to_worker'') db)) \<and>
     map sr_workerRating (requests (snd (rate now3 caller3 rid3 rating3 review3 reviewType3 db))) =
       map sr_workerRating (requests db)"
proof -
  have rid: "sr_id sr = rid" using assms(1) by (rule findById_sr_id)
  let ?rv = "\<lparr>rv_id = next_id db, rv_serviceRequest = sr_id sr, rv_reviewer = u_id caller,
              rv_reviewee = wk_user w, rv_worker = Some (wk_id w), rv_rating = r,
              rv_review = str_or review [], rv_reviewType = ''customer_to_worker'',
              rv_isActive = True\<rparr>"
  let ?sr' = "sr\<lparr>sr_customerRating := Some r, sr_customerReview := Some (str_or review [])\<rparr>"
  let ?db' = "save_sr now ?sr' (updateRating_worker (wk_id w) (create_rv ?rv db))"
  have res: "rate now caller rid (Some r) review (Some ''customer_to_worker'') db =
      (Ok ''Rating submitted successfully'', ?db')"
    using assms by (simp add: rate_def Let_def num_truthy_def)
  have a: "findById_sr ?db' rid = Some (?sr'\<lparr>sr_updatedAt := now\<rparr>)"
    using findById_sr_save_sr [of "updateRating_worker (wk_id w) (create_rv ?rv db)" ?sr' sr now]
      assms(1) rid by simp
  have nz: "r \<noteq> 0" using assms(7) by simp
  have again: "rate now2 caller2 rid rating2 review2 reviewType2 ?db' = (Err BadRequest, ?db')"
    using a assms(2) nz by (simp add: rate_def num_truthy_def)
  show ?thesis
    using res a again rate_keeps_workerRating [of now3 caller3 rid3 rating3 review3 reviewType3 db]
    by simp
qed

theorem rate_customer_write_once_witness:
  "findById_sr completed_market 100 = Some completed_request \<and>
   sr_status completed_request = Completed \<and>
   sr_customerRating completed_request = None \<and>
   sr_customer completed_request = u_id customer_user \<and>
   sr_worker completed_request = Some 10 \<and>
   findById_wk completed_market 10 = Some (plumber\<lparr>wk_completedJobs := 1, wk_updatedAt := 1\<rparr>) \<and>
   fst (rate 5 customer_user 100 (Some 5) None (Some ''customer_to_worker'') completed_market) =
     Ok ''Rating submitted successfully'' \<and>
   fst (rate 6 customer_user 100 (Some 4) None (Some ''customer_to_worker'')
         (snd (rate 5 customer_user 100 (Some 5) None (Some ''customer_to_worker'')
                 completed_market))) = Err BadRequest"
proof -
  have h: "sr_status completed_request = Completed" "sr_customerRating completed_request = None"
    "sr_customer completed_request = u_id customer_user" "sr_worker completed_request = Some 10"
    by (simp_all add: market_defs)
  have b: "(1::real) \<le> 5" "(5::real) \<le> 5" by simp_all
  show ?thesis
    using rate_customer_write_once [OF completed_market_request h(1) h(2) h(3) h(4)
        completed_market_worker b, of 5 None 6 customer_user "Some 4" None
        "Some ''customer_to_worker''"]
      completed_market_request completed_market_worker h
    by simp
qed

text \<open>
  C5 as stated fails in both halves: after the customer's rating, a worker_to_customer
  rating of the same request is refused, so the two directions do not both succeed; and
  rating twice in the worker_to_customer direction is answered with success both times,
  with no workerRating stored.
\<close>

theorem rate_directions_not_independent:
  "fst (rate 5 customer_user 100 (Some 5) None (Some ''customer_to_worker'') completed_market) =
     Ok ''Rating submitted successfully'' \<and>
   fst (rate 6 plumber_user 100 (Some 4) None (Some ''worker_to_customer'')
         (snd (rate 5 customer_user 100 (Some 5) None (Some ''customer_to_worker'')
                 completed_market))) = Err BadRequest \<and>
   fst (rate 5 plumber_user 100 (Some 4) None (Some ''worker_to_customer'') completed_market) =
     Ok ''Rating submitted successfully'' \<and>
   fst (rate 6 plumber_user 100 (Some 3) None (Some ''worker_to_customer'')
         (snd (rate 5 plumber_user 100 (Some 4) None (Some ''worker_to_customer'')
                 completed_market))) = Ok ''Rating submitted successfully''"
  by (simp add: route_defs market_defs Let_def)

text \<open>
  C10 (as the routes implement it). On a completed request without a customer rating, a
  Rate call by someone other than the customer, or in a direction other than
  customer_to_worker, is answered with the success envelope 'Rating submitted
  successfully'; it creates no review, changes no worker and no tracking record and no
  other request, and leaves every field of the request as it was except updatedAt, which
  the save sets to the time of the call.
\<close>

theorem rate_silent_noop:
  assumes "findById_sr db rid = Some sr"
    and "sr_status sr = Completed"
    and "sr_customerRating sr = None"
    and "sr_customer sr \<noteq> u_id caller \<or> reviewType \<noteq> Some ''customer_to_worker''"
  shows
    "fst (rate now caller rid rating review reviewType db) = Ok ''Rating submitted successfully'' \<and>
     reviews (snd (rate now caller rid rating review reviewType db)) = reviews db \<and>
     workers (snd (rate now caller rid rating review reviewType db)) = workers db \<and>
     trackings (snd (rate now caller rid rating review reviewType db)) = trackings db \<and>
     findById_sr (snd (rate now caller rid rating review reviewType db)) rid =
       Some (sr\<lparr>sr_updatedAt := now\<rparr>) \<and>
     (\<forall>i. i \<noteq> rid \<longrightarrow>
        findById_sr (snd (rate now caller rid rating review reviewType db)) i = findById_sr db i)"
proof -
  have rid: "sr_id sr = rid" using assms(1) by (rule findById_sr_id)
  have res: "rate now caller rid rating review reviewType db =
      (Ok ''Rating submitted successfully'', save_sr now sr db)"
    using assms by (auto simp: rate_def Let_def num_truthy_def)
  have a: "findById_sr (save_sr now sr db) rid = Some (sr\<lparr>sr_updatedAt := now\<rparr>)"
    using findById_sr_save_sr [of db sr sr now] assms(1) rid by simp
  have b: "\<forall>i. i \<noteq> rid \<longrightarrow> findById_sr (save_sr now sr db) i = findById_sr db i"
    using findById_sr_save_sr_other [of _ sr now db] rid by simp
  show ?thesis using res a b by simp
qed

theorem rate_silent_noop_witness:
  "findById_sr completed_market 100 = Some completed_request \<and>
   sr_status completed_request = Completed \<and>
   sr_customerRating completed_request = None \<and>
   sr_customer completed_request \<noteq> u_id plumber_user \<and>
   fst (rate 5 plumber_user 100 (Some 4) None (Some ''worker_to_customer'') completed_market) =
     Ok ''Rating submitted successfully'' \<and>
   reviews (snd (rate 5 plumber_user 100 (Some 4) None (Some ''worker_to_customer'')
                  completed_market)) = [] \<and>
   findById_sr (snd (rate 5 plumber_user 100 (Some 4) None (Some ''worker_to_customer'')
                      completed_market)) 100 = Some (completed_request\<lparr>sr_updatedAt := 5\<rparr>) \<and>
   (101::nat) \<noteq> 100 \<and>
   findById_sr (snd (rate 5 plumber_user 100 (Some 4) None (Some ''worker_to_customer'')
                      completed_market)) 101 = Some unlocated_request"
proof -
  have h: "sr_status completed_request = Completed" "sr_customerRating completed_request = None"
    "sr_customer completed_request \<noteq> u_id plumber_user \<or>
     Some ''worker_to_customer'' \<noteq> Some ''customer_to_worker''"
    by (simp_all add: market_defs)
  have r: "reviews completed_market = []"
    "findById_sr completed_market 101 = Some unlocated_request"
    "sr_customer completed_request \<noteq> u_id plumber_user"
    by (simp_all add: route_defs market_defs Let_def)
  show ?thesis
    using rate_silent_noop [OF completed_market_request h, of 5 "Some 4" None]
      completed_market_request h(1,2) r
    by simp
qed

text \<open>
  C10 as stated fails in one point: the request is not left unchanged, its updatedAt moves
  from the time of completion to the time of the Rate call.
\<close>

theorem rate_noop_touches_updatedAt:
  "sr_status completed_request = Completed \<and>
   sr_customerRating completed_request = None \<and>
   findById_sr completed_market 100 = Some completed_request \<and>
   fst (rate 5 plumber_user 100 (Some 4) None (Some ''worker_to_customer'') completed_market) =
     Ok ''Rating submitted successfully'' \<and>
   findById_sr (snd (rate 5 plumber_user 100 (Some 4) None (Some ''worker_to_customer'')
                      completed_market)) 100 \<noteq> Some completed_request \<and>
   sr_updatedAt completed_request = 3 \<and>
   map_option sr_updatedAt
     (findById_sr (snd (rate 5 plumber_user 100 (Some 4) None (Some ''worker_to_customer'')
                         completed_market)) 100) = Some 5"
  by (simp add: route_defs market_defs Let_def)

section \<open>Proximity matching\<close>




text \<open>
  C8 (as the routes implement it). Every request that the nearby-requests query returns has
  the worker's profession as its service type, is pending, and lies within the radius given
  in the query (default 10 km) of the query point, by the store's distance; the worker's
  serviceArea is not consulted. Every request that the available-requests listing returns
  has the worker's profession as its service type, is pending, and is stored at (0, 0) or
  lies within the worker's serviceArea of the worker's stored location, by the Haversine
  distance.
\<close>

theorem listed_requests_bounds:
  assumes "findOne_worker_by_user db (u_id caller) = Some w"
  shows
    "(nearby_requests geoDist caller (Some lat) (Some lon) radius db = Inr rs \<and> r \<in> set rs \<longrightarrow>
        geoDist (lon, lat) (sr_coordinates r) \<le> (case radius of None \<Rightarrow> 10 | Some x \<Rightarrow> x) * 1000 \<and>
        sr_serviceType r = wk_profession w \<and> sr_status r = Pending) \<and>
     (available_requests caller db = Inr rs' \<and> r' \<in> set rs' \<longrightarrow>
        (sr_coordinates r' = (0, 0) \<or>
         calculateDistance (snd (wk_coordinates w)) (fst (wk_coordinates w))
           (snd (sr_coordinates r')) (fst (sr_coordinates r')) \<le> wk_serviceArea w) \<and>
        sr_serviceType r' = wk_profession w \<and> sr_status r' = Pending)"
  using assms
  by (auto simp: available_requests_def nearby_requests_def Let_def prod_eq_iff
      split: if_splits)

theorem listed_requests_bounds_witness:
  "findOne_worker_by_user located_market (u_id plumber_user) = Some plumber \<and>
   nearby_requests haversine_metres plumber_user (Some 0) (Some 90) (Some 30000) located_market =
     Inr [leak_request] \<and>
   leak_request \<in> set [leak_request] \<and>
   haversine_metres (90, 0) (sr_coordinates leak_request) \<le> 30000 * 1000 \<and>
   sr_serviceType leak_request = wk_profession plumber \<and> sr_status leak_request = Pending \<and>
   findOne_worker_by_user unlocated_market (u_id plumber_user) = Some plumber \<and>
   available_requests plumber_user unlocated_market = Inr [unlocated_request] \<and>
   unlocated_request \<in> set [unlocated_request] \<and>
   sr_coordinates unlocated_request = (0, 0) \<and>
   sr_serviceType unlocated_request = wk_profession plumber \<and>
   sr_status unlocated_request = Pending"
proof -
  have w: "findOne_worker_by_user located_market (u_id plumber_user) = Some plumber"
    "findOne_worker_by_user unlocated_market (u_id plumber_user) = Some plumber"
    by (simp_all add: findOne_worker_by_user_def market_defs)
  have n: "nearby_requests haversine_metres plumber_user (Some 0) (Some 90) (Some 30000)
             located_market = Inr [leak_request]"
    using half_turn_bounds
    by (simp add: nearby_requests_def haversine_metres_def calculateDistance_antipodal
        authorize_def findOne_worker_by_user_def market_defs)
  have a: "available_requests plumber_user unlocated_market = Inr [unlocated_request]"
    by (simp add: available_requests_def authorize_def findOne_worker_by_user_def market_defs)
  have c: "sr_coordinates unlocated_request = (0, 0)"
    by (simp add: market_defs)
  show ?thesis
    using listed_requests_bounds [OF w(1), of haversine_metres 0 90 "Some 30000"
        "[leak_request]" leak_request "[]" leak_request]
      listed_requests_bounds [OF w(2), of haversine_metres 0 90 None "[]" leak_request
        "[unlocated_request]" unlocated_request]
      w n a c
    by simp
qed

text \<open>
  C8 as stated fails for the nearby-requests query: with a query radius of 30000 km the
  plumber, whose serviceArea is 10 km, is shown a pending request with a location that lies
  half a great circle from the query point.
\<close>

theorem nearby_requests_exceeds_serviceArea:
  "nearby_requests haversine_metres plumber_user (Some 0) (Some 90) (Some 30000) located_market =
     Inr [leak_request] \<and>
   findOne_worker_by_user located_market (u_id plumber_user) = Some plumber \<and>
   sr_coordinates leak_request \<noteq> (0, 0) \<and>
   wk_serviceArea plumber < calculateDistance 0 90 (snd (sr_coordinates leak_request))
     (fst (sr_coordinates leak_request))"
  using half_turn_bounds
  by (simp add: nearby_requests_def haversine_metres_def calculateDistance_antipodal
      authorize_def findOne_worker_by_user_def market_defs)

end
